theory Spec2Isabelle
  imports Main
begin

section \<open>JavaScript values and the library functions the pages call\<close>

text \<open>
  The values that \<open>JSON.parse\<close> returns and \<open>JSON.stringify\<close> accepts. An object is
  kept as the list of its members in order. The pages never compute with a number, so the
  representation \<open>'n\<close> of numbers is left open.
\<close>

datatype 'n js_value =
    JNull
  | JBool bool
  | JNum 'n
  | JStr string
  | JArr "'n js_value list"
  | JObj "(string \<times> 'n js_value) list"

text \<open>
  Neither page implements cookie parsing or JSON: \<open>cookie.parse\<close> comes from the npm package
  \<open>cookie\<close>, \<open>JSON.parse\<close> and \<open>JSON.stringify\<close> from the JavaScript runtime. The model
  takes the three as parameters, so that a theorem about a page holds for whatever these
  functions compute. A function that can throw returns a sum, \<open>Inl\<close> the thrown value.
\<close>

record ('e, 'n) js_runtime =
  cookie_parse :: "string \<Rightarrow> (string \<rightharpoonup> string)"
  JSON_parse :: "string \<Rightarrow> 'e + 'n js_value"
  JSON_stringify :: "'n js_value \<Rightarrow> string"

text \<open>
  A value is JSON-representable when parsing its serialization gives the value back. That
  fails for a value that \<open>JSON.stringify\<close> changes on the way, such as a number that is
  not finite.
\<close>

definition JSON_representable :: "('e, 'n) js_runtime \<Rightarrow> 'n js_value \<Rightarrow> bool" where
  "JSON_representable rt P = (JSON_parse rt (JSON_stringify rt P) = Inr P)"

text \<open>
  JavaScript truthiness of \<open>cookies.loggedIn\<close>, a property that is either \<open>undefined\<close>
  (\<open>None\<close>) or a string: only \<open>undefined\<close> and the empty string are falsy.
\<close>

definition truthy :: "string option \<Rightarrow> bool" where
  "truthy v = (case v of None \<Rightarrow> False | Some s \<Rightarrow> s \<noteq> [])"

section \<open>The browser\<close>

text \<open>
  What the pages read and write of the ambient browser state: \<open>document.cookie\<close> and
  \<open>localStorage\<close>. Outside a browser \<open>typeof window\<close> is \<open>"undefined"\<close>; the model passes
  the window as an option, \<open>None\<close> outside a browser.
\<close>

record browser =
  document_cookie :: string
  localStorage :: "string \<rightharpoonup> string"

section \<open>lib/useUser.tsx\<close>

text \<open>
  The object \<open>useUser\<close> returns. The TypeScript type is the union of
  \<open>{user: null, loggedIn: false}\<close> and \<open>{user: payload, loggedIn: true}\<close>, but the value of
  \<open>user\<close> comes from \<open>JSON.parse\<close>, which is untyped: at run time the two fields are
  independent.
\<close>

record 'n UserState =
  user :: "'n js_value"
  loggedIn :: bool

text \<open>
  The value of the constant \<open>user\<close> of \<open>useUser\<close>,
  \<open>typeof window !== "undefined" && localStorage.getItem("accessTokenPayload")\<close>:
  \<open>false\<close> outside a browser, \<open>null\<close> when the key is not stored, the stored string
  otherwise.
\<close>

datatype stored_user = MFalse | MNull | MString string

definition read_stored_user :: "browser option \<Rightarrow> stored_user" where
  "read_stored_user window =
     (case window of
        None \<Rightarrow> MFalse
      | Some w \<Rightarrow>
          (case localStorage w ''accessTokenPayload'' of
             None \<Rightarrow> MNull
           | Some s \<Rightarrow> MString s))"

text \<open>
  \<open>useMemo(f, [])\<close>: the hook owns a cell of the component. On the first render the cell is
  empty, \<open>f\<close> is evaluated and its value kept; every later render of the same component
  returns the kept value.
\<close>

definition useMemo :: "'a option \<Rightarrow> 'a \<Rightarrow> 'a \<times> 'a option" where
  "useMemo cell v = (case cell of None \<Rightarrow> (v, Some v) | Some kept \<Rightarrow> (kept, Some kept))"

text \<open>\<open>JSON.parse\<close> first converts its argument to a string.\<close>

fun ToString :: "stored_user \<Rightarrow> string" where
  "ToString MFalse = ''false''"
| "ToString MNull = ''null''"
| "ToString (MString s) = s"

text \<open>
  \<open>useUser\<close>, with the runtime, the memo cell and the window made explicit. It returns
  the object or the exception thrown, and the memo cell after the render.
\<close>

definition useUser ::
  "('e, 'n) js_runtime \<Rightarrow> stored_user option \<Rightarrow> browser option
     \<Rightarrow> ('e + 'n UserState) \<times> stored_user option" where
  "useUser rt cell window =
     (let (stored, cell') = useMemo cell (read_stored_user window) in
      (case window of
         Some w \<Rightarrow>
           (let cookies = cookie_parse rt (document_cookie w) in
            if \<not> truthy (cookies ''loggedIn'')
            then Inr \<lparr>user = JNull, loggedIn = False\<rparr>
            else (case JSON_parse rt (ToString stored) of
                    Inl e \<Rightarrow> Inl e
                  | Inr v \<Rightarrow> Inr \<lparr>user = v, loggedIn = True\<rparr>))
       | None \<Rightarrow> Inr \<lparr>user = JNull, loggedIn = False\<rparr>,
       cell'))"

section \<open>pages/auth/login.tsx\<close>

text \<open>
  Modelled from the spec: the types \<open>APIRequest\<close> and \<open>APIResponse\<close> are declared in
  \<open>pages/api/login\<close>, which is not among the sources. The request is the JSON body
  \<open>{ username, password }\<close>, the response is
  \<open>{ error: boolean, errorDescription?: string, user?: payload }\<close>; an optional field that
  is missing reads as \<open>undefined\<close>, here \<open>None\<close>.
\<close>

record APIRequest =
  username :: string
  password :: string

record 'n APIResponse =
  error :: bool
  errorDescription :: "string option"
  user :: "'n js_value option"

text \<open>
  A value of \<open>router.query\<close>: Next.js gives a string, or an array of strings when the
  parameter is repeated; a parameter that is absent reads as \<open>undefined\<close>.
\<close>

datatype query_value = QString string | QArray "string list"

text \<open>
  What the handler does to its surroundings, in the order it does it:
  \<open>localStorage.setItem\<close>, \<open>setError\<close> of the component's \<open>error\<close> state, \<open>router.push\<close>
  and \<open>console.error\<close>. An effect is a call that returned: a call that throws changes
  nothing and is not among the effects.
\<close>

datatype 'e effect =
    SetItem string string
  | SetError string
  | RouterPush string
  | ConsoleError 'e

text \<open>
  The whole body of \<open>loginHandler\<close> is one \<open>try\<close> block, so whatever throws inside it
  reaches the \<open>catch\<close>. Besides the awaited \<open>postData\<close>, two calls of the block can throw:
  \<open>localStorage.setItem\<close> (a browser refuses a write over its quota, or every write when
  storage is disabled) and \<open>router.push\<close>. Which of their calls throw, and what, is a
  parameter of the model: \<open>None\<close> when the call returns. Nothing else in the block throws:
  \<open>JSON.stringify\<close> throws only for a cyclic object or a BigInt, neither of which is a
  \<open>js_value\<close>; reading \<open>response\<close> and \<open>router.query\<close> does not throw; \<open>setError\<close> and
  \<open>console.error\<close> do not throw.
\<close>

record 'e throws =
  setItem_throws :: "string \<Rightarrow> string \<Rightarrow> 'e option"
  push_throws :: "string \<Rightarrow> 'e option"

text \<open>\<open>a || b\<close> for \<open>a\<close> a string or \<open>undefined\<close>: \<open>b\<close> when \<open>a\<close> is falsy.\<close>

definition js_or :: "string option \<Rightarrow> string \<Rightarrow> string" where
  "js_or a b = (case a of None \<Rightarrow> b | Some s \<Rightarrow> if s = [] then b else s)"

text \<open>
  The string that \<open>localStorage.setItem(key, JSON.stringify(response.user))\<close> stores:
  \<open>JSON.stringify(undefined)\<close> is \<open>undefined\<close>, which \<open>setItem\<close> converts to the string
  \<open>"undefined"\<close>.
\<close>

definition stringify_user :: "('e, 'n) js_runtime \<Rightarrow> 'n js_value option \<Rightarrow> string" where
  "stringify_user rt u = (case u of None \<Rightarrow> ''undefined'' | Some P \<Rightarrow> JSON_stringify rt P)"

text \<open>
  The constant \<open>redirect\<close>: \<open>router.query.redirectOnLogin\<close> when \<open>typeof\<close> says it is a
  string, \<open>"/"\<close> otherwise.
\<close>

definition redirect_target :: "(string \<rightharpoonup> query_value) \<Rightarrow> string" where
  "redirect_target query =
     (case query ''redirectOnLogin'' of
        Some (QString s) \<Rightarrow> s
      | _ \<Rightarrow> ''/'')"

text \<open>
  The \<open>try\<close> block of \<open>loginHandler\<close>. The parameters are what the closure reads: the
  runtime, which calls throw, \<open>postData\<close> (of \<open>@lib/postData\<close>, not among the sources: the
  awaited call either throws, \<open>Inl\<close>, or gives the response), \<open>router.query\<close>, and the
  \<open>username\<close> and \<open>password\<close> states. The result is the effects up to the end of the
  block or up to the call that threw, and what was thrown.
\<close>

definition try_block ::
  "('e, 'n) js_runtime \<Rightarrow> 'e throws \<Rightarrow> (string \<Rightarrow> APIRequest \<Rightarrow> 'e + 'n APIResponse)
     \<Rightarrow> (string \<rightharpoonup> query_value) \<Rightarrow> string \<Rightarrow> string \<Rightarrow> 'e effect list \<times> 'e option" where
  "try_block rt api postData query uname pw =
     (let request = \<lparr>username = uname, password = pw\<rparr> in
      case postData ''/api/login'' request of
        Inl err \<Rightarrow> ([], Some err)
      | Inr response \<Rightarrow>
          if error response = True
          then ([SetError (js_or (errorDescription response) ''An unexpected error occurred.'')],
                None)
          else
            (let item = stringify_user rt (APIResponse.user response) in
             case setItem_throws api ''accessTokenPayload'' item of
               Some err \<Rightarrow> ([], Some err)
             | None \<Rightarrow>
                 (let redirect = redirect_target query in
                  case push_throws api redirect of
                    Some err \<Rightarrow> ([SetItem ''accessTokenPayload'' item], Some err)
                  | None \<Rightarrow>
                      ([SetItem ''accessTokenPayload'' item, RouterPush redirect], None))))"

text \<open>
  \<open>loginHandler\<close>: the \<open>try\<close> block, and the \<open>catch\<close> block when something was thrown.
  The result is the list of effects of one invocation.
\<close>

definition loginHandler ::
  "('e, 'n) js_runtime \<Rightarrow> 'e throws \<Rightarrow> (string \<Rightarrow> APIRequest \<Rightarrow> 'e + 'n APIResponse)
     \<Rightarrow> (string \<rightharpoonup> query_value) \<Rightarrow> string \<Rightarrow> string \<Rightarrow> 'e effect list" where
  "loginHandler rt api postData query uname pw =
     (case try_block rt api postData query uname pw of
        (done, None) \<Rightarrow> done
      | (done, Some err) \<Rightarrow>
          done @ [SetError ''Failed to connect to the server. Please try again.'',
                  ConsoleError err])"

text \<open>
  The state the effects act on: the browser, the \<open>error\<close> state of the component (what the
  form displays), the targets \<open>router.push\<close> navigated to and the values logged with
  \<open>console.error\<close>.
\<close>

record 'e page =
  window :: browser
  error_state :: "string option"
  pushed :: "string list"
  console :: "'e list"

fun perform :: "'e effect \<Rightarrow> 'e page \<Rightarrow> 'e page" where
  "perform (SetItem k v) p =
     p\<lparr>window := (window p)\<lparr>localStorage := (localStorage (window p))(k \<mapsto> v)\<rparr>\<rparr>"
| "perform (SetError m) p = p\<lparr>error_state := Some m\<rparr>"
| "perform (RouterPush u) p = p\<lparr>pushed := pushed p @ [u]\<rparr>"
| "perform (ConsoleError e) p = p\<lparr>console := console p @ [e]\<rparr>"

text \<open>One submission of the form: the handler's effects, performed in order.\<close>

definition submit ::
  "('e, 'n) js_runtime \<Rightarrow> 'e throws \<Rightarrow> (string \<Rightarrow> APIRequest \<Rightarrow> 'e + 'n APIResponse)
     \<Rightarrow> (string \<rightharpoonup> query_value) \<Rightarrow> string \<Rightarrow> string \<Rightarrow> 'e page \<Rightarrow> 'e page" where
  "submit rt api postData query uname pw p =
     fold perform (loginHandler rt api postData query uname pw) p"

subsection \<open>The outcomes of one invocation\<close>


fun writes_storage :: "'e effect \<Rightarrow> bool" where
  "writes_storage (SetItem k v) = True"
| "writes_storage _ = False"

fun navigates :: "'e effect \<Rightarrow> bool" where
  "navigates (RouterPush u) = True"
| "navigates _ = False"










section \<open>A reference runtime\<close>

text \<open>
  Concrete functions for the three parameters, on which the model runs on concrete inputs.
  Each stands for the library function on a fragment of its inputs, named below. The
  theorems about the pages are proved for every runtime; only their instances at concrete
  inputs use this one.
\<close>

datatype js_error = SyntaxError | TypeError string | QuotaExceededError

definition is_space :: "char \<Rightarrow> bool" where
  "is_space c = (c = CHR '' '' \<or> c = CHR 0x09 \<or> c = CHR 0x0A \<or> c = CHR 0x0D)"

definition trim :: "string \<Rightarrow> string" where
  "trim s = rev (dropWhile is_space (rev (dropWhile is_space s)))"

fun split_on :: "char \<Rightarrow> string \<Rightarrow> string list" where
  "split_on d [] = [[]]"
| "split_on d (c # cs) =
     (if c = d then [] # split_on d cs
      else (case split_on d cs of
              [] \<Rightarrow> [[c]]
            | p # ps \<Rightarrow> (c # p) # ps))"

text \<open>
  \<open>parse\<close> of the npm package \<open>cookie\<close>, for cookie strings without percent escapes (its
  \<open>decodeURIComponent\<close> is then the identity): the string is split at semicolons, a piece
  without \<open>=\<close> is skipped, key and value are trimmed, a value that starts with a double
  quote loses its first and last character, and the first assignment of a key wins.
\<close>

definition cookie_pair :: "string \<Rightarrow> (string \<times> string) option" where
  "cookie_pair pair =
     (if CHR ''='' \<notin> set pair then None
      else
        (let key = trim (takeWhile (\<lambda>c. c \<noteq> CHR ''='') pair);
             val = trim (tl (dropWhile (\<lambda>c. c \<noteq> CHR ''='') pair))
         in Some (key, if val \<noteq> [] \<and> hd val = CHR 0x22 then butlast (tl val) else val)))"

fun assign_once :: "string list \<Rightarrow> (string \<rightharpoonup> string) \<Rightarrow> (string \<rightharpoonup> string)" where
  "assign_once [] obj = obj"
| "assign_once (pair # pairs) obj =
     (case cookie_pair pair of
        None \<Rightarrow> assign_once pairs obj
      | Some (key, val) \<Rightarrow>
          assign_once pairs (if obj key = None then obj(key \<mapsto> val) else obj))"

definition plain_cookie_parse :: "string \<Rightarrow> (string \<rightharpoonup> string)" where
  "plain_cookie_parse str = assign_once (split_on CHR '';'' str) Map.empty"

text \<open>
  A reader and a printer for JSON texts whose numbers are integers of at most
  \<open>2\<^sup>5\<^sup>3 - 1\<close> in absolute value (those a JavaScript number holds exactly and prints in
  plain digits) and whose strings escape nothing but the double quote and the backslash;
  the reader rejects every other text. Its fuel is the length of the text: every nested
  value is at least one character further in.
\<close>

definition is_digit :: "char \<Rightarrow> bool" where
  "is_digit c = (48 \<le> (of_char c :: nat) \<and> (of_char c :: nat) \<le> 57)"

definition digits_value :: "string \<Rightarrow> int" where
  "digits_value ds = foldl (\<lambda>n c. 10 * n + (of_char c - 48)) 0 ds"

fun read_chars :: "string \<Rightarrow> (string \<times> string) option" where
  "read_chars [] = None"
| "read_chars (c # cs) =
     (if c = CHR 0x22 then Some ([], cs)
      else if c = CHR 0x5C then
        (case cs of
           [] \<Rightarrow> None
         | e # cs' \<Rightarrow>
             (if e = CHR 0x22 \<or> e = CHR 0x5C
              then map_option (\<lambda>(s, r). (e # s, r)) (read_chars cs')
              else None))
      else if (of_char c :: nat) < 32 then None
      else map_option (\<lambda>(s, r). (c # s, r)) (read_chars cs))"

definition read_digits :: "string \<Rightarrow> (int \<times> string) option" where
  "read_digits s =
     (let ds = takeWhile is_digit s; r = dropWhile is_digit s
      in if ds = [] \<or> (length ds > 1 \<and> hd ds = CHR ''0'') then None
         else if r \<noteq> [] \<and> hd r \<in> {CHR ''.'', CHR ''e'', CHR ''E''} then None
         else if digits_value ds > 9007199254740991 then None
         else Some (digits_value ds, r))"

definition read_number :: "string \<Rightarrow> (int js_value \<times> string) option" where
  "read_number s =
     (case s of
        [] \<Rightarrow> None
      | c # cs \<Rightarrow>
          (if c = CHR ''-'' then map_option (\<lambda>(n, r). (JNum (- n), r)) (read_digits cs)
           else map_option (\<lambda>(n, r). (JNum n, r)) (read_digits s)))"

definition read_literal :: "string \<Rightarrow> int js_value \<Rightarrow> string \<Rightarrow> (int js_value \<times> string) option" where
  "read_literal lit v s =
     (if take (length lit) s = lit then Some (v, drop (length lit) s) else None)"

fun read_value :: "nat \<Rightarrow> string \<Rightarrow> (int js_value \<times> string) option"
  and read_elements :: "nat \<Rightarrow> string \<Rightarrow> (int js_value list \<times> string) option"
  and read_members :: "nat \<Rightarrow> string \<Rightarrow> ((string \<times> int js_value) list \<times> string) option" where
  "read_value 0 s = None"
| "read_value (Suc n) s =
     (case dropWhile is_space s of
        [] \<Rightarrow> None
      | c # cs \<Rightarrow>
          (if c = CHR ''n'' then read_literal ''null'' JNull (c # cs)
           else if c = CHR ''t'' then read_literal ''true'' (JBool True) (c # cs)
           else if c = CHR ''f'' then read_literal ''false'' (JBool False) (c # cs)
           else if c = CHR 0x22 then map_option (\<lambda>(str, r). (JStr str, r)) (read_chars cs)
           else if c = CHR ''['' then
             (case dropWhile is_space cs of
                [] \<Rightarrow> None
              | d # ds \<Rightarrow>
                  (if d = CHR '']'' then Some (JArr [], ds)
                   else map_option (\<lambda>(vs, r). (JArr vs, r)) (read_elements n cs)))
           else if c = CHR ''{'' then
             (case dropWhile is_space cs of
                [] \<Rightarrow> None
              | d # ds \<Rightarrow>
                  (if d = CHR ''}'' then Some (JObj [], ds)
                   else map_option (\<lambda>(ms, r). (JObj ms, r)) (read_members n cs)))
           else read_number (c # cs)))"
| "read_elements 0 s = None"
| "read_elements (Suc n) s =
     (case read_value n s of
        None \<Rightarrow> None
      | Some (v, r) \<Rightarrow>
          (case dropWhile is_space r of
             [] \<Rightarrow> None
           | d # ds \<Rightarrow>
               (if d = CHR '']'' then Some ([v], ds)
                else if d = CHR '','' then map_option (\<lambda>(vs, r'). (v # vs, r')) (read_elements n ds)
                else None)))"
| "read_members 0 s = None"
| "read_members (Suc n) s =
     (case dropWhile is_space s of
        [] \<Rightarrow> None
      | q # cs \<Rightarrow>
          (if q \<noteq> CHR 0x22 then None
           else
             (case read_chars cs of
                None \<Rightarrow> None
              | Some (key, r) \<Rightarrow>
                  (case dropWhile is_space r of
                     [] \<Rightarrow> None
                   | colon # r1 \<Rightarrow>
                       (if colon \<noteq> CHR '':'' then None
                        else
                          (case read_value n r1 of
                             None \<Rightarrow> None
                           | Some (v, r2) \<Rightarrow>
                               (case dropWhile is_space r2 of
                                  [] \<Rightarrow> None
                                | d # ds \<Rightarrow>
                                    (if d = CHR ''}'' then Some ([(key, v)], ds)
                                     else if d = CHR '','' then
                                       map_option (\<lambda>(ms, r'). ((key, v) # ms, r')) (read_members n ds)
                                     else None))))))))"

definition plain_JSON_parse :: "string \<Rightarrow> js_error + int js_value" where
  "plain_JSON_parse text =
     (case read_value (Suc (length text)) text of
        None \<Rightarrow> Inl SyntaxError
      | Some (v, r) \<Rightarrow> if dropWhile is_space r = [] then Inr v else Inl SyntaxError)"

fun show_nat :: "nat \<Rightarrow> string" where
  "show_nat n =
     (if n < 10 then [char_of (48 + n)] else show_nat (n div 10) @ [char_of (48 + n mod 10)])"

declare show_nat.simps [simp del]

definition show_int :: "int \<Rightarrow> string" where
  "show_int i = (if i < 0 then CHR ''-'' # show_nat (nat (- i)) else show_nat (nat i))"

definition escape :: "char \<Rightarrow> string" where
  "escape c = (if c = CHR 0x22 \<or> c = CHR 0x5C then [CHR 0x5C, c] else [c])"

definition quote :: "string \<Rightarrow> string" where
  "quote s = CHR 0x22 # concat (map escape s) @ [CHR 0x22]"

fun commas :: "string list \<Rightarrow> string" where
  "commas [] = []"
| "commas [x] = x"
| "commas (x # y # ys) = x @ CHR '','' # commas (y # ys)"

fun plain_JSON_stringify :: "int js_value \<Rightarrow> string" where
  "plain_JSON_stringify JNull = ''null''"
| "plain_JSON_stringify (JBool b) = (if b then ''true'' else ''false'')"
| "plain_JSON_stringify (JNum i) = show_int i"
| "plain_JSON_stringify (JStr s) = quote s"
| "plain_JSON_stringify (JArr vs) = CHR ''['' # commas (map plain_JSON_stringify vs) @ '']''"
| "plain_JSON_stringify (JObj ms) =
     CHR ''{'' # commas (map (\<lambda>(k, v). quote k @ CHR '':'' # plain_JSON_stringify v) ms) @ ''}''"

definition plain_runtime :: "(js_error, int) js_runtime" where
  "plain_runtime =
     \<lparr>cookie_parse = plain_cookie_parse,
      JSON_parse = plain_JSON_parse,
      JSON_stringify = plain_JSON_stringify\<rparr>"

text \<open>
  The values of the fragment: integers of at most \<open>2\<^sup>5\<^sup>3 - 1\<close> in absolute value, and
  strings and keys without control characters.
\<close>

definition plain_string :: "string \<Rightarrow> bool" where
  "plain_string s = list_all (\<lambda>c. 32 \<le> (of_char c :: nat)) s"

fun plain_value :: "int js_value \<Rightarrow> bool" where
  "plain_value JNull = True"
| "plain_value (JBool b) = True"
| "plain_value (JNum i) = (\<bar>i\<bar> \<le> 9007199254740991)"
| "plain_value (JStr s) = plain_string s"
| "plain_value (JArr vs) = list_all plain_value vs"
| "plain_value (JObj ms) = list_all (\<lambda>m. plain_string (fst m) \<and> plain_value (snd m)) ms"

text \<open>The fuel that reading a printed value back takes, and what may follow a value.\<close>

fun weight :: "int js_value \<Rightarrow> nat" where
  "weight (JArr vs) = Suc (sum_list (map (\<lambda>v. Suc (weight v)) vs))"
| "weight (JObj ms) = Suc (sum_list (map (\<lambda>m. Suc (weight (snd m))) ms))"
| "weight _ = 1"

definition delimited :: "string \<Rightarrow> bool" where
  "delimited rest =
     (case rest of [] \<Rightarrow> True | c # cs \<Rightarrow> c = CHR '','' \<or> c = CHR '']'' \<or> c = CHR ''}'')"

text \<open>
  A stand-in for the server behind \<open>postData\<close>, a payload and a page to submit from: the
  server knows one account, answers a wrong password with a description and an unknown
  user without one, and is not reachable at any other address.
\<close>

definition sample_payload :: "int js_value" where
  "sample_payload = JObj [(''username'', JStr ''bob''), (''id'', JNum 7)]"

definition sample_postData :: "string \<Rightarrow> APIRequest \<Rightarrow> js_error + int APIResponse" where
  "sample_postData url request =
     (if url \<noteq> ''/api/login'' then Inl (TypeError ''Failed to fetch'')
      else if username request = ''bob'' \<and> password request = ''hunter2''
      then Inr \<lparr>error = False, errorDescription = None, user = Some sample_payload\<rparr>
      else if username request = ''bob''
      then Inr \<lparr>error = True, errorDescription = Some ''Wrong password.'', user = None\<rparr>
      else Inr \<lparr>error = True, errorDescription = None, user = None\<rparr>)"

definition fresh_page :: "js_error page" where
  "fresh_page =
     \<lparr>window = \<lparr>document_cookie = [], localStorage = Map.empty\<rparr>,
      error_state = None, pushed = [], console = []\<rparr>"

definition offline_postData :: "string \<Rightarrow> APIRequest \<Rightarrow> js_error + int APIResponse" where
  "offline_postData url request = Inl (TypeError ''Failed to fetch'')"

text \<open>
  Three browsers: one in which no call throws, one whose storage refuses every write, and
  one whose \<open>router.push\<close> throws.
\<close>

definition no_throw :: "js_error throws" where
  "no_throw = \<lparr>setItem_throws = (\<lambda>k v. None), push_throws = (\<lambda>u. None)\<rparr>"

definition full_storage :: "js_error throws" where
  "full_storage =
     \<lparr>setItem_throws = (\<lambda>k v. Some QuotaExceededError), push_throws = (\<lambda>u. None)\<rparr>"

definition broken_router :: "js_error throws" where
  "broken_router =
     \<lparr>setItem_throws = (\<lambda>k v. None),
      push_throws = (\<lambda>u. Some (TypeError ''Invalid href''))\<rparr>"

section \<open>Evaluating the model\<close>

lemma fst_useUser:
  "fst (useUser rt cell (Some w)) =
     (if \<not> truthy (cookie_parse rt (document_cookie w) ''loggedIn'')
      then Inr \<lparr>UserState.user = JNull, loggedIn = False\<rparr>
      else (case JSON_parse rt (ToString (fst (useMemo cell (read_stored_user (Some w))))) of
              Inl e \<Rightarrow> Inl e
            | Inr v \<Rightarrow> Inr \<lparr>UserState.user = v, loggedIn = True\<rparr>))"
  by (simp add: useUser_def Let_def split: prod.splits)

lemma snd_useUser:
  "snd (useUser rt cell win) = snd (useMemo cell (read_stored_user win))"
  by (simp add: useUser_def Let_def split: prod.splits)

text \<open>Outside a browser the hook answers logged out, whatever the memo cell holds.\<close>

lemma useUser_without_window:
  "fst (useUser rt cell None) = Inr \<lparr>UserState.user = JNull, loggedIn = False\<rparr>"
  by (simp add: useUser_def Let_def split: prod.splits)

text \<open>
  On the first render of a component the memo cell is empty and the hook reads
  \<open>localStorage\<close>; on every later render it returns what the first one read, whatever the
  storage then holds.
\<close>

lemma first_render_reads_storage:
  "fst (useMemo None (read_stored_user (Some w))) =
     (case localStorage w ''accessTokenPayload'' of None \<Rightarrow> MNull | Some s \<Rightarrow> MString s)"
  by (simp add: useMemo_def read_stored_user_def)

lemma later_render_keeps_first_read:
  "fst (useMemo (snd (useUser rt None win)) (read_stored_user win'))
     = read_stored_user win"
  by (simp add: snd_useUser useMemo_def)

text \<open>The five paths of \<open>loginHandler\<close>.\<close>

lemma loginHandler_rejected:
  assumes "postData ''/api/login'' \<lparr>username = uname, password = pw\<rparr> = Inl err"
  shows "loginHandler rt api postData query uname pw =
           [SetError ''Failed to connect to the server. Please try again.'', ConsoleError err]"
  using assms by (simp add: loginHandler_def try_block_def)

lemma loginHandler_resolved_error:
  assumes "postData ''/api/login'' \<lparr>username = uname, password = pw\<rparr> = Inr response"
      and "error response"
  shows "loginHandler rt api postData query uname pw =
           [SetError (js_or (errorDescription response) ''An unexpected error occurred.'')]"
  using assms by (simp add: loginHandler_def try_block_def)


lemma loginHandler_push_threw:
  assumes "postData ''/api/login'' \<lparr>username = uname, password = pw\<rparr> = Inr response"
      and "\<not> error response"
      and "setItem_throws api ''accessTokenPayload''
             (stringify_user rt (APIResponse.user response)) = None"
      and "push_throws api (redirect_target query) = Some err"
  shows "loginHandler rt api postData query uname pw =
           [SetItem ''accessTokenPayload'' (stringify_user rt (APIResponse.user response)),
            SetError ''Failed to connect to the server. Please try again.'', ConsoleError err]"
  using assms by (simp add: loginHandler_def try_block_def)

lemma loginHandler_resolved_ok:
  assumes "postData ''/api/login'' \<lparr>username = uname, password = pw\<rparr> = Inr response"
      and "\<not> error response"
      and "setItem_throws api ''accessTokenPayload''
             (stringify_user rt (APIResponse.user response)) = None"
      and "push_throws api (redirect_target query) = None"
  shows "loginHandler rt api postData query uname pw =
           [SetItem ''accessTokenPayload'' (stringify_user rt (APIResponse.user response)),
            RouterPush (redirect_target query)]"
  using assms by (simp add: loginHandler_def try_block_def)

text \<open>Once the write has returned, the storage holds it whatever \<open>router.push\<close> does.\<close>

lemma submit_storage_after_write:
  assumes "postData ''/api/login'' \<lparr>username = uname, password = pw\<rparr> = Inr response"
      and "\<not> error response"
      and "setItem_throws api ''accessTokenPayload''
             (stringify_user rt (APIResponse.user response)) = None"
  shows "localStorage (window (submit rt api postData query uname pw p))
           = (localStorage (window p))
               (''accessTokenPayload'' \<mapsto> stringify_user rt (APIResponse.user response))"
proof (cases "push_throws api (redirect_target query)")
  case None
  with assms show ?thesis by (simp add: submit_def loginHandler_resolved_ok)
next
  case (Some err)
  with assms show ?thesis by (simp add: submit_def loginHandler_push_threw)
qed


text \<open>The reference runtime and the sample server at the inputs used below.\<close>

lemma plain_cookie_simps:
  "plain_cookie_parse ''theme=dark; loggedIn=true'' ''loggedIn'' = Some ''true''"
  "plain_cookie_parse ''loggedIn=false'' ''loggedIn'' = Some ''false''"
  "plain_cookie_parse ''loggedIn=0'' ''loggedIn'' = Some ''0''"
  "plain_cookie_parse ''loggedIn='' ''loggedIn'' = Some []"
  "plain_cookie_parse ''theme=dark; lang=en'' ''loggedIn'' = None"
  by code_simp+

lemma plain_parse_simps:
  "plain_JSON_parse ''null'' = Inr JNull"
  "plain_JSON_parse ''undefined'' = Inl SyntaxError"
  "plain_JSON_parse ''[1,2]'' = Inr (JArr [JNum 1, JNum 2])"
  by code_simp+

lemma sample_postData_simps:
  "sample_postData ''/api/login'' \<lparr>username = ''bob'', password = ''hunter2''\<rparr>
     = Inr \<lparr>error = False, errorDescription = None, user = Some sample_payload\<rparr>"
  "sample_postData ''/api/login'' \<lparr>username = ''bob'', password = ''1234''\<rparr>
     = Inr \<lparr>error = True, errorDescription = Some ''Wrong password.'', user = None\<rparr>"
  "sample_postData ''/api/login'' \<lparr>username = ''eve'', password = ''1234''\<rparr>
     = Inr \<lparr>error = True, errorDescription = None, user = None\<rparr>"
  by (simp_all add: sample_postData_def)

section \<open>The reference runtime recovers what it prints\<close>

text \<open>
  Every value of the fragment is JSON-representable in the reference runtime: the reader
  gives back what the printer printed.
\<close>

lemma read_chars_escaped:
  "plain_string s \<Longrightarrow> read_chars (concat (map escape s) @ CHR 0x22 # rest) = Some (s, rest)"
proof (induction s)
  case Nil
  then show ?case by simp
next
  case (Cons c s)
  then have ih: "read_chars (concat (map escape s) @ CHR 0x22 # rest) = Some (s, rest)"
    and c: "32 \<le> (of_char c :: nat)"
    by (simp_all add: plain_string_def)
  show ?case
  proof (cases "c = CHR 0x22 \<or> c = CHR 0x5C")
    case True
    then have e: "escape c = [CHR 0x5C, c]" by (simp add: escape_def)
    from True ih show ?thesis by (auto simp add: e)
  next
    case False
    then have e: "escape c = [c]" by (simp add: escape_def)
    from False ih c show ?thesis by (simp add: e)
  qed
qed

lemma show_nat_digits: "list_all is_digit (show_nat n)"
proof (induction n rule: show_nat.induct)
  case (1 n)
  show ?case
  proof (cases "n < 10")
    case True
    then show ?thesis by (subst show_nat.simps) (simp add: is_digit_def)
  next
    case False
    have "n mod 10 < 10" by simp
    then have "is_digit (char_of (48 + n mod 10))"
      by (simp add: is_digit_def)
    with 1 False show ?thesis by (subst show_nat.simps) simp
  qed
qed


lemma of_char_digit_nat: "k < 10 \<Longrightarrow> (of_char (char_of (48 + k)) :: nat) = 48 + k"
  by (simp add: of_char_of)

lemma of_char_digit_int: "k < 10 \<Longrightarrow> (of_char (char_of (48 + k)) :: int) = 48 + int k"
proof -
  assume k: "k < 10"
  have "(of_char (char_of (48 + k)) :: int) = int (of_char (char_of (48 + k)))"
    by (simp only: of_nat_of_char)
  with k show ?thesis by (simp add: of_char_digit_nat)
qed

lemma digit_char_zero: "k < 10 \<Longrightarrow> char_of (48 + k) = CHR ''0'' \<Longrightarrow> k = (0::nat)"
proof -
  assume k: "k < 10" and z: "char_of (48 + k) = CHR ''0''"
  from z have "(of_char (char_of (48 + k)) :: nat) = of_char CHR ''0''" by simp
  with k show ?thesis by (simp add: of_char_digit_nat)
qed

lemma show_nat_nonempty: "show_nat n \<noteq> []"
  by (subst show_nat.simps) simp

lemma digits_value_snoc:
  "digits_value (ds @ [c]) = 10 * digits_value ds + (of_char c - 48)"
  by (simp add: digits_value_def)

lemma digits_value_show_nat: "digits_value (show_nat n) = int n"
proof (induction n rule: show_nat.induct)
  case (1 n)
  show ?case
  proof (cases "n < 10")
    case True
    then show ?thesis
      by (subst show_nat.simps) (simp add: digits_value_def of_char_digit_int)
  next
    case False
    have "n mod 10 < 10" by simp
    then have d: "(of_char (char_of (48 + n mod 10)) :: int) = 48 + int (n mod 10)"
      by (rule of_char_digit_int)
    from 1 False have "digits_value (show_nat (n div 10)) = int (n div 10)" by simp
    moreover have "10 * int (n div 10) + int (n mod 10) = int n" by presburger
    ultimately show ?thesis using False d
      by (subst show_nat.simps) (simp add: digits_value_snoc)
  qed
qed

lemma hd_show_nat: "0 < n \<Longrightarrow> hd (show_nat n) \<noteq> CHR ''0''"
proof (induction n rule: show_nat.induct)
  case (1 n)
  show ?case
  proof (cases "n < 10")
    case True
    with 1(2) show ?thesis
      by (subst show_nat.simps) (auto dest: digit_char_zero)
  next
    case False
    then have "0 < n div 10" by simp
    with 1 False have "hd (show_nat (n div 10)) \<noteq> CHR ''0''" by simp
    with False show ?thesis
      by (subst show_nat.simps) (simp add: show_nat_nonempty)
  qed
qed

lemma length_show_nat: "1 < length (show_nat n) \<Longrightarrow> 0 < n"
  by (subst (asm) show_nat.simps) (auto split: if_splits)


lemma delimited_simps [simp]:
  "delimited []" "delimited (CHR '','' # r)" "delimited (CHR '']'' # r)" "delimited (CHR ''}'' # r)"
  by (simp_all add: delimited_def)

lemma delimited_no_digit: "delimited rest \<Longrightarrow> takeWhile is_digit rest = [] \<and> dropWhile is_digit rest = rest"
  by (cases rest) (auto simp add: delimited_def is_digit_def)

lemma delimited_no_fraction:
  "delimited rest \<Longrightarrow> \<not> (rest \<noteq> [] \<and> hd rest \<in> {CHR ''.'', CHR ''e'', CHR ''E''})"
  by (cases rest) (auto simp add: delimited_def)

lemma delimited_no_space: "delimited rest \<Longrightarrow> dropWhile is_space rest = rest"
  by (cases rest) (auto simp add: delimited_def is_space_def)

lemma read_digits_show_nat:
  assumes "int n \<le> 9007199254740991" and "delimited rest"
  shows "read_digits (show_nat n @ rest) = Some (int n, rest)"
proof -
  have all: "\<And>c. c \<in> set (show_nat n) \<Longrightarrow> is_digit c"
    using show_nat_digits [of n] by (simp add: list_all_iff)
  have tw: "takeWhile is_digit (show_nat n @ rest) = show_nat n"
    using all delimited_no_digit [OF assms(2)] by (simp add: takeWhile_append2)
  have dw: "dropWhile is_digit (show_nat n @ rest) = rest"
    using all delimited_no_digit [OF assms(2)] by (simp add: dropWhile_append2)
  have lead: "\<not> (1 < length (show_nat n) \<and> hd (show_nat n) = CHR ''0'')"
    using length_show_nat [of n] hd_show_nat [of n] by blast
  show ?thesis
    unfolding read_digits_def Let_def tw dw
    using lead delimited_no_fraction [OF assms(2)] assms(1)
    by (simp add: show_nat_nonempty digits_value_show_nat)
qed

lemma hd_show_nat_digit: "\<exists>c cs. show_nat n = c # cs \<and> is_digit c"
  using show_nat_digits [of n] show_nat_nonempty [of n] by (cases "show_nat n") simp_all

lemma digit_not_minus: "is_digit c \<Longrightarrow> c \<noteq> CHR ''-''"
  by (auto simp add: is_digit_def)

lemma read_number_show_int:
  assumes "\<bar>i\<bar> \<le> 9007199254740991" and "delimited rest"
  shows "read_number (show_int i @ rest) = Some (JNum i, rest)"
proof (cases "i < 0")
  case True
  with assms(1) have "int (nat (- i)) \<le> 9007199254740991" by simp
  from read_digits_show_nat [OF this assms(2)] True show ?thesis
    by (simp add: read_number_def show_int_def)
next
  case False
  with assms(1) have "int (nat i) \<le> 9007199254740991" by simp
  from read_digits_show_nat [OF this assms(2)]
  have rd: "read_digits (show_nat (nat i) @ rest) = Some (i, rest)" using False by simp
  obtain c cs where c: "show_nat (nat i) = c # cs" "is_digit c"
    using hd_show_nat_digit by blast
  with rd False digit_not_minus [OF c(2)] show ?thesis
    by (simp add: read_number_def show_int_def)
qed

lemma show_int_head:
  "\<exists>c cs. show_int i = c # cs \<and> (c = CHR ''-'' \<or> is_digit c)"
  using hd_show_nat_digit [of "nat i"] by (auto simp add: show_int_def)

lemma number_head_dispatch:
  assumes "c = CHR ''-'' \<or> is_digit c"
  shows "\<not> is_space c" "c \<noteq> CHR ''n''" "c \<noteq> CHR ''t''" "c \<noteq> CHR ''f''" "c \<noteq> CHR 0x22"
    "c \<noteq> CHR ''[''" "c \<noteq> CHR ''{''" "c \<noteq> CHR '']''" "c \<noteq> CHR ''}''"
  using assms by (auto simp add: is_digit_def is_space_def)

lemma stringify_head:
  "\<exists>c cs. plain_JSON_stringify v = c # cs \<and> \<not> is_space c \<and> c \<noteq> CHR '']'' \<and> c \<noteq> CHR ''}''"
proof (cases v)
  case (JNum i)
  obtain c cs where "show_int i = c # cs" "c = CHR ''-'' \<or> is_digit c"
    using show_int_head by blast
  with JNum number_head_dispatch [OF this(2)] show ?thesis by simp
next
  case (JStr s)
  then show ?thesis by (simp add: quote_def is_space_def)
qed (simp_all add: is_space_def)

lemma stringify_no_space:
  "dropWhile is_space (plain_JSON_stringify v @ r) = plain_JSON_stringify v @ r"
  using stringify_head [of v] by auto

lemma read_elements_commas:
  assumes "\<And>v n r. v \<in> set vs \<Longrightarrow> delimited r \<Longrightarrow> weight v \<le> n \<Longrightarrow>
             read_value n (plain_JSON_stringify v @ r) = Some (v, r)"
      and "vs \<noteq> []"
      and "sum_list (map (\<lambda>v. Suc (weight v)) vs) \<le> m"
  shows "read_elements m (commas (map plain_JSON_stringify vs) @ CHR '']'' # rest) = Some (vs, rest)"
  using assms
proof (induction vs arbitrary: m)
  case Nil
  then show ?case by simp
next
  case (Cons v vs)
  from Cons.prems(3) obtain m' where m: "m = Suc m'" and wv: "weight v \<le> m'"
    and ws: "sum_list (map (\<lambda>v. Suc (weight v)) vs) \<le> m'"
    by (cases m) auto
  have rv: "\<And>r. delimited r \<Longrightarrow> read_value m' (plain_JSON_stringify v @ r) = Some (v, r)"
    using Cons.prems(1) wv by simp
  show ?case
  proof (cases "vs = []")
    case True
    then show ?thesis unfolding m by (simp add: rv is_space_def)
  next
    case False
    then obtain w ws' where vs: "vs = w # ws'" by (cases vs) auto
    have "read_elements m' (commas (map plain_JSON_stringify vs) @ CHR '']'' # rest)
            = Some (vs, rest)"
      using Cons.IH [OF _ False ws] Cons.prems(1) by simp
    then show ?thesis unfolding m vs by (simp add: rv is_space_def)
  qed
qed

lemma read_members_commas:
  assumes "\<And>k v n r. (k, v) \<in> set ms \<Longrightarrow> delimited r \<Longrightarrow> weight v \<le> n \<Longrightarrow>
             read_value n (plain_JSON_stringify v @ r) = Some (v, r)"
      and "\<And>k v. (k, v) \<in> set ms \<Longrightarrow> plain_string k"
      and "ms \<noteq> []"
      and "sum_list (map (\<lambda>m. Suc (weight (snd m))) ms) \<le> n"
  shows "read_members n
           (commas (map (\<lambda>(k, v). quote k @ CHR '':'' # plain_JSON_stringify v) ms) @ CHR ''}'' # rest)
         = Some (ms, rest)"
  using assms
proof (induction ms arbitrary: n)
  case Nil
  then show ?case by simp
next
  case (Cons kv ms)
  obtain k v where kv: "kv = (k, v)" by (cases kv)
  from Cons.prems(4) obtain n' where n: "n = Suc n'" and wv: "weight v \<le> n'"
    and ws: "sum_list (map (\<lambda>m. Suc (weight (snd m))) ms) \<le> n'"
    by (cases n) (auto simp add: kv)
  have rv: "\<And>r. delimited r \<Longrightarrow> read_value n' (plain_JSON_stringify v @ r) = Some (v, r)"
    using Cons.prems(1) [of k v] wv by (simp add: kv)
  have key: "\<And>r. read_chars (concat (map escape k) @ CHR 0x22 # r) = Some (k, r)"
    using Cons.prems(2) [of k v] by (simp add: kv read_chars_escaped)
  show ?case
  proof (cases "ms = []")
    case True
    then show ?thesis unfolding n kv
      by (simp add: quote_def key rv is_space_def)
  next
    case False
    then obtain w ws' where ms: "ms = w # ws'" by (cases ms) auto
    have "read_members n'
            (commas (map (\<lambda>(k, v). quote k @ CHR '':'' # plain_JSON_stringify v) ms) @ CHR ''}'' # rest)
          = Some (ms, rest)"
    proof (rule Cons.IH [OF _ _ False ws])
      fix k v n r
      assume "(k, v) \<in> set ms" "delimited r" "weight v \<le> n"
      with Cons.prems(1) [of k v] show "read_value n (plain_JSON_stringify v @ r) = Some (v, r)"
        by simp
    next
      fix k v
      assume "(k, v) \<in> set ms"
      with Cons.prems(2) [of k v] show "plain_string k" by simp
    qed
    then show ?thesis unfolding n kv ms
      by (simp add: quote_def key rv is_space_def)
  qed
qed


lemma read_value_stringify:
  "plain_value v \<Longrightarrow> delimited rest \<Longrightarrow> weight v \<le> n \<Longrightarrow>
     read_value n (plain_JSON_stringify v @ rest) = Some (v, rest)"
proof (induction v arbitrary: n rest)
  case JNull
  then show ?case by (cases n) (simp_all add: is_space_def read_literal_def)
next
  case (JBool b)
  then show ?case by (cases n; cases b) (simp_all add: is_space_def read_literal_def)
next
  case (JNum i)
  obtain c cs where c: "show_int i = c # cs" "c = CHR ''-'' \<or> is_digit c"
    using show_int_head by blast
  from JNum have "read_number (show_int i @ rest) = Some (JNum i, rest)"
    by (simp add: read_number_show_int)
  with JNum(3) c(1) number_head_dispatch [OF c(2)] show ?case
    by (cases n) simp_all
next
  case (JStr s)
  then show ?case
    by (cases n) (simp_all add: quote_def read_chars_escaped is_space_def)
next
  case (JArr vs)
  from JArr.prems(3) obtain n' where n: "n = Suc n'"
    and ws: "sum_list (map (\<lambda>v. Suc (weight v)) vs) \<le> n'"
    by (cases n) auto
  show ?case
  proof (cases "vs = []")
    case True
    then show ?thesis unfolding n by (simp add: is_space_def)
  next
    case False
    have elems: "read_elements n' (commas (map plain_JSON_stringify vs) @ CHR '']'' # rest)
                   = Some (vs, rest)"
    proof (rule read_elements_commas [OF _ False ws])
      fix v m r
      assume v: "v \<in> set vs" "delimited r" "weight v \<le> m"
      with JArr.prems(1) have "plain_value v" by (simp add: list_all_iff)
      from JArr.IH [OF v(1) this v(2,3)]
      show "read_value m (plain_JSON_stringify v @ r) = Some (v, r)" .
    qed
    from False obtain w ws' where vs: "vs = w # ws'" by (cases vs) auto
    obtain c cs where c: "plain_JSON_stringify w = c # cs" "\<not> is_space c" "c \<noteq> CHR '']''"
      using stringify_head [of w] by blast
    have hd: "\<exists>cs'. commas (map plain_JSON_stringify vs) @ CHR '']'' # rest = c # cs'"
      unfolding vs using c(1) by (cases ws') simp_all
    then obtain cs' where
      body: "commas (map plain_JSON_stringify vs) @ CHR '']'' # rest = c # cs'" by blast
    show ?thesis
      unfolding n using elems c(2,3)
      by (simp add: is_space_def body)
  qed
next
  case (JObj ms)
  from JObj.prems(3) obtain n' where n: "n = Suc n'"
    and ws: "sum_list (map (\<lambda>m. Suc (weight (snd m))) ms) \<le> n'"
    by (cases n) auto
  show ?case
  proof (cases "ms = []")
    case True
    then show ?thesis unfolding n by (simp add: is_space_def)
  next
    case False
    have members: "read_members n'
        (commas (map (\<lambda>(k, v). quote k @ CHR '':'' # plain_JSON_stringify v) ms) @ CHR ''}'' # rest)
        = Some (ms, rest)"
    proof (rule read_members_commas [OF _ _ False ws])
      fix k v m r
      assume kv: "(k, v) \<in> set ms" "delimited r" "weight v \<le> m"
      with JObj.prems(1) have "plain_value v" by (auto simp add: list_all_iff)
      moreover have "v \<in> Basic_BNFs.snds (k, v)" by simp
      ultimately show "read_value m (plain_JSON_stringify v @ r) = Some (v, r)"
        using JObj.IH [OF kv(1) _ _ kv(2,3)] by blast
    next
      fix k v
      assume "(k, v) \<in> set ms"
      with JObj.prems(1) show "plain_string k" by (auto simp add: list_all_iff)
    qed
    from False obtain k v ms' where ms: "ms = (k, v) # ms'" by (cases ms) auto
    have "\<exists>cs'. commas (map (\<lambda>(k, v). quote k @ CHR '':'' # plain_JSON_stringify v) ms)
            @ CHR ''}'' # rest = CHR 0x22 # cs'"
      unfolding ms by (cases ms') (simp_all add: quote_def)
    then obtain cs' where
      body: "commas (map (\<lambda>(k, v). quote k @ CHR '':'' # plain_JSON_stringify v) ms)
            @ CHR ''}'' # rest = CHR 0x22 # cs'" by blast
    show ?thesis
      unfolding n using members
      by (simp add: is_space_def body)
  qed
qed

lemma sum_weights_le_commas:
  "(\<And>x. x \<in> set xs \<Longrightarrow> f x \<le> length (g x)) \<Longrightarrow>
     sum_list (map (\<lambda>x. Suc (f x)) xs) \<le> Suc (length (commas (map g xs)))"
proof (induction xs)
  case Nil
  then show ?case by simp
next
  case (Cons x xs)
  then have ih: "sum_list (map (\<lambda>x. Suc (f x)) xs) \<le> Suc (length (commas (map g xs)))"
    and x: "f x \<le> length (g x)"
    by simp_all
  show ?case
  proof (cases xs)
    case Nil
    with x show ?thesis by simp
  next
    case (Cons y ys)
    with ih x show ?thesis by simp
  qed
qed

lemma weight_le_length: "weight v \<le> length (plain_JSON_stringify v)"
proof (induction v)
  case (JNum i)
  obtain c cs where "show_int i = c # cs" using show_int_head by blast
  then show ?case by simp
next
  case (JStr s)
  then show ?case by (simp add: quote_def)
next
  case (JArr vs)
  then have "sum_list (map (\<lambda>v. Suc (weight v)) vs)
               \<le> Suc (length (commas (map plain_JSON_stringify vs)))"
    by (intro sum_weights_le_commas) simp
  then show ?case by simp
next
  case (JObj ms)
  have "sum_list (map (\<lambda>m. Suc (weight (snd m))) ms)
          \<le> Suc (length (commas (map (\<lambda>(k, v). quote k @ CHR '':'' # plain_JSON_stringify v) ms)))"
  proof (rule sum_weights_le_commas)
    fix m
    assume m: "m \<in> set ms"
    obtain k v where kv: "m = (k, v)" by (cases m)
    with m JObj.IH [of m v] have "weight v \<le> length (plain_JSON_stringify v)" by simp
    with kv show "weight (snd m)
        \<le> length ((\<lambda>(k, v). quote k @ CHR '':'' # plain_JSON_stringify v) m)"
      by simp
  qed
  then show ?case by simp
qed simp_all

theorem plain_values_representable:
  assumes "plain_value v"
  shows "JSON_representable plain_runtime v"
proof -
  have "weight v \<le> Suc (length (plain_JSON_stringify v))"
    using weight_le_length [of v] by simp
  with assms have "read_value (Suc (length (plain_JSON_stringify v))) (plain_JSON_stringify v @ [])
                     = Some (v, [])"
    by (intro read_value_stringify) simp_all
  then show ?thesis
    by (simp add: JSON_representable_def plain_runtime_def plain_JSON_parse_def)
qed

section \<open>The session reader\<close>

text \<open>
  Claim C1. When the cookie string has no \<open>loggedIn\<close> cookie, \<open>useUser\<close> in a browser
  returns \<open>{ user: null, loggedIn: false }\<close>, for every content of local storage and every
  state of the memo cell.
\<close>

theorem useUser_logged_out_when_cookie_absent:
  assumes "cookie_parse rt (document_cookie w) ''loggedIn'' = None"
  shows "fst (useUser rt cell (Some w)) = Inr \<lparr>UserState.user = JNull, loggedIn = False\<rparr>"
  using assms by (simp add: fst_useUser truthy_def)

theorem useUser_logged_out_when_cookie_absent_witness:
  "cookie_parse plain_runtime
     (document_cookie \<lparr>document_cookie = ''theme=dark; lang=en'',
        localStorage = [''accessTokenPayload'' \<mapsto> ''[1,2]'']\<rparr>) ''loggedIn'' = None
   \<and> fst (useUser plain_runtime None
        (Some \<lparr>document_cookie = ''theme=dark; lang=en'',
           localStorage = [''accessTokenPayload'' \<mapsto> ''[1,2]'']\<rparr>))
     = Inr \<lparr>UserState.user = JNull, loggedIn = False\<rparr>"
proof -
  have absent: "cookie_parse plain_runtime
     (document_cookie \<lparr>document_cookie = ''theme=dark; lang=en'',
        localStorage = [''accessTokenPayload'' \<mapsto> ''[1,2]'']\<rparr>) ''loggedIn'' = None"
    by (simp add: plain_runtime_def plain_cookie_simps)
  from useUser_logged_out_when_cookie_absent [OF absent] absent show ?thesis by simp
qed

text \<open>
  Claim C8, as amended. When the \<open>loggedIn\<close> cookie is truthy and the string stored under
  \<open>accessTokenPayload\<close> is one that \<open>JSON.parse\<close> rejects, \<open>useUser\<close> in a browser, on the
  first render of a component (the render that reads local storage), does not return an
  object: the exception of \<open>JSON.parse\<close> leaves the hook.
\<close>

theorem useUser_throws_on_malformed_payload:
  assumes "truthy (cookie_parse rt (document_cookie w) ''loggedIn'')"
      and "localStorage w ''accessTokenPayload'' = Some s"
      and "JSON_parse rt s = Inl e"
  shows "fst (useUser rt None (Some w)) = Inl e"
  using assms by (simp add: fst_useUser first_render_reads_storage)

theorem useUser_throws_on_malformed_payload_witness:
  "truthy (cookie_parse plain_runtime
     (document_cookie \<lparr>document_cookie = ''theme=dark; loggedIn=true'',
        localStorage = [''accessTokenPayload'' \<mapsto> ''undefined'']\<rparr>) ''loggedIn'')
   \<and> localStorage \<lparr>document_cookie = ''theme=dark; loggedIn=true'',
        localStorage = [''accessTokenPayload'' \<mapsto> ''undefined'']\<rparr> ''accessTokenPayload''
     = Some ''undefined''
   \<and> JSON_parse plain_runtime ''undefined'' = Inl SyntaxError
   \<and> fst (useUser plain_runtime None
        (Some \<lparr>document_cookie = ''theme=dark; loggedIn=true'',
           localStorage = [''accessTokenPayload'' \<mapsto> ''undefined'']\<rparr>))
     = Inl SyntaxError"
proof -
  have present: "truthy (cookie_parse plain_runtime
     (document_cookie \<lparr>document_cookie = ''theme=dark; loggedIn=true'',
        localStorage = [''accessTokenPayload'' \<mapsto> ''undefined'']\<rparr>) ''loggedIn'')"
    by (simp add: plain_runtime_def plain_cookie_simps truthy_def)
  have stored: "localStorage \<lparr>document_cookie = ''theme=dark; loggedIn=true'',
        localStorage = [''accessTokenPayload'' \<mapsto> ''undefined'']\<rparr> ''accessTokenPayload''
     = Some ''undefined''"
    by simp
  have malformed: "JSON_parse plain_runtime ''undefined'' = Inl SyntaxError"
    by (simp add: plain_runtime_def plain_parse_simps)
  from useUser_throws_on_malformed_payload [OF present stored malformed]
    present stored malformed
  show ?thesis by simp
qed

text \<open>
  The claim as first stated speaks of every browser state. On a later render of the same
  component the hook parses what its first render read: a component that first rendered
  while the storage held \<open>[1,2]\<close> returns that payload, and throws nothing, when the
  storage has come to hold a string that \<open>JSON.parse\<close> rejects.
\<close>

theorem kept_read_hides_malformed_payload:
  "truthy (cookie_parse plain_runtime
     (document_cookie \<lparr>document_cookie = ''theme=dark; loggedIn=true'',
        localStorage = [''accessTokenPayload'' \<mapsto> ''undefined'']\<rparr>) ''loggedIn'')
   \<and> localStorage \<lparr>document_cookie = ''theme=dark; loggedIn=true'',
        localStorage = [''accessTokenPayload'' \<mapsto> ''undefined'']\<rparr> ''accessTokenPayload''
     = Some ''undefined''
   \<and> JSON_parse plain_runtime ''undefined'' = Inl SyntaxError
   \<and> fst (useUser plain_runtime
        (snd (useUser plain_runtime None
           (Some \<lparr>document_cookie = ''theme=dark; loggedIn=true'',
              localStorage = [''accessTokenPayload'' \<mapsto> ''[1,2]'']\<rparr>)))
        (Some \<lparr>document_cookie = ''theme=dark; loggedIn=true'',
           localStorage = [''accessTokenPayload'' \<mapsto> ''undefined'']\<rparr>))
     = Inr \<lparr>UserState.user = JArr [JNum 1, JNum 2], loggedIn = True\<rparr>"
  by (simp add: fst_useUser snd_useUser useMemo_def read_stored_user_def plain_runtime_def
      plain_cookie_simps plain_parse_simps truthy_def)

text \<open>
  Claim C9, as amended. When the \<open>loggedIn\<close> cookie is truthy and nothing is stored under
  \<open>accessTokenPayload\<close>, \<open>useUser\<close> in a browser, on the first render of a component (the
  render that reads local storage), returns \<open>{ loggedIn: true, user: null }\<close>: the
  memoized read is \<open>null\<close>, \<open>JSON.parse\<close> converts it to the text \<open>null\<close> and parses that
  to \<open>null\<close> without throwing. The tag says logged in while there is no payload.
\<close>

theorem useUser_logged_in_with_null_user:
  assumes "truthy (cookie_parse rt (document_cookie w) ''loggedIn'')"
      and "localStorage w ''accessTokenPayload'' = None"
      and "JSON_parse rt ''null'' = Inr JNull"
  shows "fst (useUser rt None (Some w)) = Inr \<lparr>UserState.user = JNull, loggedIn = True\<rparr>"
  using assms by (simp add: fst_useUser first_render_reads_storage)

theorem useUser_logged_in_with_null_user_witness:
  "truthy (cookie_parse plain_runtime
     (document_cookie \<lparr>document_cookie = ''theme=dark; loggedIn=true'',
        localStorage = Map.empty\<rparr>) ''loggedIn'')
   \<and> localStorage \<lparr>document_cookie = ''theme=dark; loggedIn=true'',
        localStorage = Map.empty\<rparr> ''accessTokenPayload'' = None
   \<and> JSON_parse plain_runtime ''null'' = Inr JNull
   \<and> fst (useUser plain_runtime None
        (Some \<lparr>document_cookie = ''theme=dark; loggedIn=true'', localStorage = Map.empty\<rparr>))
     = Inr \<lparr>UserState.user = JNull, loggedIn = True\<rparr>"
proof -
  have present: "truthy (cookie_parse plain_runtime
     (document_cookie \<lparr>document_cookie = ''theme=dark; loggedIn=true'',
        localStorage = Map.empty\<rparr>) ''loggedIn'')"
    by (simp add: plain_runtime_def plain_cookie_simps truthy_def)
  have unset: "localStorage \<lparr>document_cookie = ''theme=dark; loggedIn=true'',
        localStorage = Map.empty\<rparr> ''accessTokenPayload'' = None"
    by simp
  have parsed: "JSON_parse plain_runtime ''null'' = Inr JNull"
    by (simp add: plain_runtime_def plain_parse_simps)
  from useUser_logged_in_with_null_user [OF present unset parsed] present unset parsed
  show ?thesis by simp
qed

text \<open>
  The claim as first stated speaks of every browser state. A component that first rendered
  while the storage held \<open>[1,2]\<close> still returns that payload on a later render, when
  nothing is stored any more: the user is not \<open>null\<close>.
\<close>

theorem kept_read_outlives_removed_payload:
  "truthy (cookie_parse plain_runtime
     (document_cookie \<lparr>document_cookie = ''theme=dark; loggedIn=true'',
        localStorage = Map.empty\<rparr>) ''loggedIn'')
   \<and> localStorage \<lparr>document_cookie = ''theme=dark; loggedIn=true'',
        localStorage = Map.empty\<rparr> ''accessTokenPayload'' = None
   \<and> fst (useUser plain_runtime
        (snd (useUser plain_runtime None
           (Some \<lparr>document_cookie = ''theme=dark; loggedIn=true'',
              localStorage = [''accessTokenPayload'' \<mapsto> ''[1,2]'']\<rparr>)))
        (Some \<lparr>document_cookie = ''theme=dark; loggedIn=true'', localStorage = Map.empty\<rparr>))
     = Inr \<lparr>UserState.user = JArr [JNum 1, JNum 2], loggedIn = True\<rparr>
   \<and> fst (useUser plain_runtime
        (snd (useUser plain_runtime None
           (Some \<lparr>document_cookie = ''theme=dark; loggedIn=true'',
              localStorage = [''accessTokenPayload'' \<mapsto> ''[1,2]'']\<rparr>)))
        (Some \<lparr>document_cookie = ''theme=dark; loggedIn=true'', localStorage = Map.empty\<rparr>))
     \<noteq> Inr \<lparr>UserState.user = JNull, loggedIn = True\<rparr>"
  by (simp add: fst_useUser snd_useUser useMemo_def read_stored_user_def plain_runtime_def
      plain_cookie_simps plain_parse_simps truthy_def)

text \<open>
  Claim C10. The cookie check is JavaScript truthiness of the parsed value. Whenever the
  parsed \<open>loggedIn\<close> cookie is a non-empty string (\<open>false\<close> and \<open>0\<close> included) \<open>useUser\<close> in
  a browser takes the logged-in branch: it throws what \<open>JSON.parse\<close> throws or returns an
  object with \<open>loggedIn: true\<close>. It returns \<open>{ user: null, loggedIn: false }\<close> exactly when
  the cookie is absent or its value is the empty string.
\<close>

theorem useUser_cookie_truthiness:
  "(\<forall>v. cookie_parse rt (document_cookie w) ''loggedIn'' = Some v \<and> v \<noteq> [] \<longrightarrow>
      (\<exists>e. fst (useUser rt cell (Some w)) = Inl e)
      \<or> (\<exists>u. fst (useUser rt cell (Some w)) = Inr \<lparr>UserState.user = u, loggedIn = True\<rparr>))
   \<and> (fst (useUser rt cell (Some w)) = Inr \<lparr>UserState.user = JNull, loggedIn = False\<rparr>
        \<longleftrightarrow> cookie_parse rt (document_cookie w) ''loggedIn'' = None
          \<or> cookie_parse rt (document_cookie w) ''loggedIn'' = Some [])"
  by (auto simp add: fst_useUser truthy_def split: option.splits sum.splits)

theorem useUser_cookie_truthiness_witness:
  "cookie_parse plain_runtime ''loggedIn=false'' ''loggedIn'' = Some ''false''
   \<and> fst (useUser plain_runtime None
        (Some \<lparr>document_cookie = ''loggedIn=false'',
           localStorage = [''accessTokenPayload'' \<mapsto> ''[1,2]'']\<rparr>))
     \<noteq> Inr \<lparr>UserState.user = JNull, loggedIn = False\<rparr>
   \<and> cookie_parse plain_runtime ''loggedIn=0'' ''loggedIn'' = Some ''0''
   \<and> fst (useUser plain_runtime None
        (Some \<lparr>document_cookie = ''loggedIn=0'',
           localStorage = [''accessTokenPayload'' \<mapsto> ''[1,2]'']\<rparr>))
     \<noteq> Inr \<lparr>UserState.user = JNull, loggedIn = False\<rparr>
   \<and> cookie_parse plain_runtime ''loggedIn='' ''loggedIn'' = Some []
   \<and> fst (useUser plain_runtime None
        (Some \<lparr>document_cookie = ''loggedIn='',
           localStorage = [''accessTokenPayload'' \<mapsto> ''[1,2]'']\<rparr>))
     = Inr \<lparr>UserState.user = JNull, loggedIn = False\<rparr>"
  using
    useUser_cookie_truthiness [where rt = plain_runtime and cell = None
      and w = "\<lparr>document_cookie = ''loggedIn=false'',
           localStorage = [''accessTokenPayload'' \<mapsto> ''[1,2]'']\<rparr>"]
    useUser_cookie_truthiness [where rt = plain_runtime and cell = None
      and w = "\<lparr>document_cookie = ''loggedIn=0'',
           localStorage = [''accessTokenPayload'' \<mapsto> ''[1,2]'']\<rparr>"]
    useUser_cookie_truthiness [where rt = plain_runtime and cell = None
      and w = "\<lparr>document_cookie = ''loggedIn='',
           localStorage = [''accessTokenPayload'' \<mapsto> ''[1,2]'']\<rparr>"]
  by (simp add: plain_runtime_def plain_cookie_simps)

section \<open>The login handler\<close>

text \<open>
  Claim C2, as amended. When the request resolves with a response whose error flag is
  false and whose user payload is \<open>P\<close>, and \<open>localStorage.setItem\<close> does not throw, local
  storage after the handler holds \<open>JSON.stringify(P)\<close> under \<open>accessTokenPayload\<close>, and
  every other key is as before.
\<close>

theorem login_success_persists_payload:
  assumes "postData ''/api/login'' \<lparr>username = uname, password = pw\<rparr> = Inr response"
      and "error response = False"
      and "APIResponse.user response = Some P"
      and "setItem_throws api ''accessTokenPayload'' (JSON_stringify rt P) = None"
  shows "localStorage (window (submit rt api postData query uname pw p)) ''accessTokenPayload''
           = Some (JSON_stringify rt P)
         \<and> localStorage (window (submit rt api postData query uname pw p))
           = (localStorage (window p))(''accessTokenPayload'' \<mapsto> JSON_stringify rt P)"
  using assms submit_storage_after_write [of postData uname pw response api rt query p]
  by (simp add: stringify_user_def)

theorem login_success_persists_payload_witness:
  "sample_postData ''/api/login'' \<lparr>username = ''bob'', password = ''hunter2''\<rparr>
     = Inr \<lparr>error = False, errorDescription = None, user = Some sample_payload\<rparr>
   \<and> setItem_throws no_throw ''accessTokenPayload''
        (JSON_stringify plain_runtime sample_payload) = None
   \<and> localStorage (window (submit plain_runtime no_throw sample_postData Map.empty
        ''bob'' ''hunter2'' fresh_page)) ''accessTokenPayload''
     = Some (plain_JSON_stringify sample_payload)"
  using login_success_persists_payload [where rt = plain_runtime and api = no_throw
      and postData = sample_postData and uname = "''bob''" and pw = "''hunter2''"
      and query = Map.empty and P = sample_payload and p = fresh_page,
      OF sample_postData_simps(1)]
  by (simp add: plain_runtime_def no_throw_def sample_postData_simps)

text \<open>
  The claim as first stated holds for every response with error flag false. When the
  browser refuses the write, \<open>setItem\<close> throws inside the \<open>try\<close> block: nothing is stored
  and the connection-failure message is displayed.
\<close>

theorem refused_write_stores_nothing:
  "sample_postData ''/api/login'' \<lparr>username = ''bob'', password = ''hunter2''\<rparr>
     = Inr \<lparr>error = False, errorDescription = None, user = Some sample_payload\<rparr>
   \<and> localStorage (window (submit plain_runtime full_storage sample_postData Map.empty
        ''bob'' ''hunter2'' fresh_page)) ''accessTokenPayload'' = None
   \<and> localStorage (window (submit plain_runtime full_storage sample_postData Map.empty
        ''bob'' ''hunter2'' fresh_page)) ''accessTokenPayload''
     \<noteq> Some (JSON_stringify plain_runtime sample_payload)
   \<and> error_state (submit plain_runtime full_storage sample_postData Map.empty
        ''bob'' ''hunter2'' fresh_page)
     = Some ''Failed to connect to the server. Please try again.''"
  by (simp add: submit_def loginHandler_def try_block_def sample_postData_simps
      full_storage_def fresh_page_def)




text \<open>
  Claim C5, as amended. After a successful submission in which neither
  \<open>localStorage.setItem\<close> nor \<open>router.push\<close> throws, the handler navigates to the value
  of the query parameter \<open>redirectOnLogin\<close> when that is a string, and to \<open>/\<close> when the
  parameter is absent or not a string.
\<close>

theorem login_success_redirect:
  assumes "postData ''/api/login'' \<lparr>username = uname, password = pw\<rparr> = Inr response"
      and "error response = False"
      and "setItem_throws api ''accessTokenPayload''
             (stringify_user rt (APIResponse.user response)) = None"
      and "push_throws api (redirect_target query) = None"
  shows "(\<forall>target. query ''redirectOnLogin'' = Some (QString target) \<longrightarrow>
            pushed (submit rt api postData query uname pw p) = pushed p @ [target])
         \<and> ((\<forall>target. query ''redirectOnLogin'' \<noteq> Some (QString target)) \<longrightarrow>
            pushed (submit rt api postData query uname pw p) = pushed p @ [''/''])"
  using assms
  by (auto simp add: submit_def loginHandler_resolved_ok redirect_target_def
      split: option.splits query_value.splits)

theorem login_success_redirect_witness:
  "sample_postData ''/api/login'' \<lparr>username = ''bob'', password = ''hunter2''\<rparr>
     = Inr \<lparr>error = False, errorDescription = None, user = Some sample_payload\<rparr>
   \<and> setItem_throws no_throw ''accessTokenPayload''
        (stringify_user plain_runtime (Some sample_payload)) = None
   \<and> push_throws no_throw ''/next'' = None
   \<and> push_throws no_throw ''/'' = None
   \<and> pushed (submit plain_runtime no_throw sample_postData
        [''redirectOnLogin'' \<mapsto> QString ''/next''] ''bob'' ''hunter2'' fresh_page) = [''/next'']
   \<and> pushed (submit plain_runtime no_throw sample_postData Map.empty
        ''bob'' ''hunter2'' fresh_page) = [''/'']
   \<and> pushed (submit plain_runtime no_throw sample_postData
        [''redirectOnLogin'' \<mapsto> QArray [''/a'', ''/b'']]
        ''bob'' ''hunter2'' fresh_page) = [''/'']"
  using
    login_success_redirect [where rt = plain_runtime and api = no_throw
      and postData = sample_postData and uname = "''bob''" and pw = "''hunter2''"
      and p = fresh_page and query = "[''redirectOnLogin'' \<mapsto> QString ''/next'']",
      OF sample_postData_simps(1)]
    login_success_redirect [where rt = plain_runtime and api = no_throw
      and postData = sample_postData and uname = "''bob''" and pw = "''hunter2''"
      and p = fresh_page and query = Map.empty,
      OF sample_postData_simps(1)]
    login_success_redirect [where rt = plain_runtime and api = no_throw
      and postData = sample_postData and uname = "''bob''" and pw = "''hunter2''"
      and p = fresh_page and query = "[''redirectOnLogin'' \<mapsto> QArray [''/a'', ''/b'']]",
      OF sample_postData_simps(1)]
  by (simp add: sample_postData_simps fresh_page_def no_throw_def)

text \<open>
  The claim as first stated holds for every successful submission. \<open>router.push\<close> comes
  after \<open>setItem\<close> in the \<open>try\<close> block: when the browser refuses the write the handler
  never reaches it, and when \<open>router.push\<close> itself throws there is no navigation either.
  In both cases the parameter is the string \<open>/next\<close>, nothing is navigated to and the
  connection-failure message is displayed.
\<close>

theorem thrown_call_prevents_redirect:
  "sample_postData ''/api/login'' \<lparr>username = ''bob'', password = ''hunter2''\<rparr>
     = Inr \<lparr>error = False, errorDescription = None, user = Some sample_payload\<rparr>
   \<and> pushed (submit plain_runtime full_storage sample_postData
        [''redirectOnLogin'' \<mapsto> QString ''/next''] ''bob'' ''hunter2'' fresh_page) = []
   \<and> error_state (submit plain_runtime full_storage sample_postData
        [''redirectOnLogin'' \<mapsto> QString ''/next''] ''bob'' ''hunter2'' fresh_page)
     = Some ''Failed to connect to the server. Please try again.''
   \<and> pushed (submit plain_runtime broken_router sample_postData
        [''redirectOnLogin'' \<mapsto> QString ''/next''] ''bob'' ''hunter2'' fresh_page) = []
   \<and> error_state (submit plain_runtime broken_router sample_postData
        [''redirectOnLogin'' \<mapsto> QString ''/next''] ''bob'' ''hunter2'' fresh_page)
     = Some ''Failed to connect to the server. Please try again.''"
  by (simp add: submit_def loginHandler_def try_block_def sample_postData_simps
      full_storage_def broken_router_def fresh_page_def)

text \<open>
  Claim C6, as amended. For a response with error flag true, the displayed message is the
  fallback \<open>An unexpected error occurred.\<close> when no \<open>errorDescription\<close> is supplied or the
  one supplied is the empty string, and is the supplied description when that is not
  empty.
\<close>

theorem login_error_message:
  assumes "postData ''/api/login'' \<lparr>username = uname, password = pw\<rparr> = Inr response"
      and "error response = True"
  shows "(errorDescription response = None \<or> errorDescription response = Some [] \<longrightarrow>
            error_state (submit rt api postData query uname pw p)
              = Some ''An unexpected error occurred.'')
         \<and> (\<forall>d. errorDescription response = Some d \<and> d \<noteq> [] \<longrightarrow>
            error_state (submit rt api postData query uname pw p) = Some d)"
  using assms by (auto simp add: submit_def loginHandler_resolved_error js_or_def)

theorem login_error_message_witness:
  "sample_postData ''/api/login'' \<lparr>username = ''eve'', password = ''1234''\<rparr>
     = Inr \<lparr>error = True, errorDescription = None, user = None\<rparr>
   \<and> error_state (submit plain_runtime no_throw sample_postData Map.empty
        ''eve'' ''1234'' fresh_page)
     = Some ''An unexpected error occurred.''
   \<and> sample_postData ''/api/login'' \<lparr>username = ''bob'', password = ''1234''\<rparr>
     = Inr \<lparr>error = True, errorDescription = Some ''Wrong password.'', user = None\<rparr>
   \<and> error_state (submit plain_runtime no_throw sample_postData Map.empty
        ''bob'' ''1234'' fresh_page)
     = Some ''Wrong password.''"
  using
    login_error_message [where rt = plain_runtime and api = no_throw
      and postData = sample_postData and uname = "''eve''" and pw = "''1234''"
      and p = fresh_page and query = Map.empty,
      OF sample_postData_simps(3)]
    login_error_message [where rt = plain_runtime and api = no_throw
      and postData = sample_postData and uname = "''bob''" and pw = "''1234''"
      and p = fresh_page and query = Map.empty,
      OF sample_postData_simps(2)]
  by (simp add: sample_postData_simps)

text \<open>
  The claim as first stated fails where the server supplies the empty string as
  description: the empty string is falsy, so the fallback is displayed, not the
  description.
\<close>

theorem empty_errorDescription_shows_fallback:
  "errorDescription \<lparr>error = True, errorDescription = Some [], user = None\<rparr> = Some []
   \<and> error_state (submit plain_runtime no_throw
        (\<lambda>url request. Inr \<lparr>error = True, errorDescription = Some [], user = None\<rparr>)
        Map.empty ''bob'' ''1234'' fresh_page)
     = Some ''An unexpected error occurred.''
   \<and> error_state (submit plain_runtime no_throw
        (\<lambda>url request. Inr \<lparr>error = True, errorDescription = Some [], user = None\<rparr>)
        Map.empty ''bob'' ''1234'' fresh_page)
     \<noteq> Some []"
  by (simp add: submit_def loginHandler_def try_block_def js_or_def)

text \<open>
  Claim C7. When the request throws, the displayed message is
  \<open>Failed to connect to the server. Please try again.\<close>, the thrown value is logged to
  the console, and the invocation neither writes to local storage nor navigates.
\<close>

theorem login_transport_failure:
  assumes "postData ''/api/login'' \<lparr>username = uname, password = pw\<rparr> = Inl err"
  shows "error_state (submit rt api postData query uname pw p)
           = Some ''Failed to connect to the server. Please try again.''
         \<and> console (submit rt api postData query uname pw p) = console p @ [err]
         \<and> \<not> list_ex writes_storage (loginHandler rt api postData query uname pw)
         \<and> \<not> list_ex navigates (loginHandler rt api postData query uname pw)
         \<and> localStorage (window (submit rt api postData query uname pw p))
           = localStorage (window p)
         \<and> pushed (submit rt api postData query uname pw p) = pushed p"
  using assms by (simp add: submit_def loginHandler_rejected)

theorem login_transport_failure_witness:
  "offline_postData ''/api/login'' \<lparr>username = ''bob'', password = ''hunter2''\<rparr>
     = Inl (TypeError ''Failed to fetch'')
   \<and> error_state (submit plain_runtime no_throw offline_postData Map.empty
        ''bob'' ''hunter2'' fresh_page)
     = Some ''Failed to connect to the server. Please try again.''
   \<and> console (submit plain_runtime no_throw offline_postData Map.empty
        ''bob'' ''hunter2'' fresh_page)
     = [TypeError ''Failed to fetch'']
   \<and> localStorage (window
        (submit plain_runtime no_throw offline_postData Map.empty ''bob'' ''hunter2'' fresh_page))
        ''accessTokenPayload'' = None
   \<and> pushed (submit plain_runtime no_throw offline_postData Map.empty
        ''bob'' ''hunter2'' fresh_page)
     = []"
  using login_transport_failure [where rt = plain_runtime and api = no_throw
      and postData = offline_postData and uname = "''bob''" and pw = "''hunter2''"
      and p = fresh_page and query = Map.empty and err = "TypeError ''Failed to fetch''"]
  by (simp add: offline_postData_def fresh_page_def)

section \<open>Login, then the session reader\<close>

text \<open>
  Claim C3, as amended. Let the handler complete a successful submission whose response
  carries the payload \<open>P\<close> and in which \<open>localStorage.setItem\<close> does not throw, let \<open>P\<close>
  be JSON-representable (\<open>JSON.parse\<close> recovers it from \<open>JSON.stringify(P)\<close>), and let
  the \<open>loggedIn\<close> cookie then be present with a non-empty value. Then \<open>useUser\<close>, in a
  browser and on the first render of a component (the render that reads local storage),
  returns \<open>{ user: P, loggedIn: true }\<close>.
\<close>

theorem login_then_useUser_round_trip:
  assumes "postData ''/api/login'' \<lparr>username = uname, password = pw\<rparr> = Inr response"
      and "error response = False"
      and "APIResponse.user response = Some P"
      and "setItem_throws api ''accessTokenPayload'' (JSON_stringify rt P) = None"
      and "JSON_representable rt P"
      and "truthy (cookie_parse rt c ''loggedIn'')"
  shows "fst (useUser rt None
           (Some ((window (submit rt api postData query uname pw p))\<lparr>document_cookie := c\<rparr>)))
         = Inr \<lparr>UserState.user = P, loggedIn = True\<rparr>"
  using assms submit_storage_after_write [of postData uname pw response api rt query p]
  by (simp add: fst_useUser first_render_reads_storage stringify_user_def
      JSON_representable_def)

theorem login_then_useUser_round_trip_witness:
  "sample_postData ''/api/login'' \<lparr>username = ''bob'', password = ''hunter2''\<rparr>
     = Inr \<lparr>error = False, errorDescription = None, user = Some sample_payload\<rparr>
   \<and> setItem_throws no_throw ''accessTokenPayload''
        (JSON_stringify plain_runtime sample_payload) = None
   \<and> JSON_representable plain_runtime sample_payload
   \<and> truthy (cookie_parse plain_runtime ''theme=dark; loggedIn=true'' ''loggedIn'')
   \<and> fst (useUser plain_runtime None
        (Some ((window (submit plain_runtime no_throw sample_postData Map.empty
           ''bob'' ''hunter2'' fresh_page))\<lparr>document_cookie := ''theme=dark; loggedIn=true''\<rparr>)))
     = Inr \<lparr>UserState.user = sample_payload, loggedIn = True\<rparr>"
proof -
  have accepted: "setItem_throws no_throw ''accessTokenPayload''
        (JSON_stringify plain_runtime sample_payload) = None"
    by (simp add: no_throw_def)
  have recovered: "JSON_representable plain_runtime sample_payload"
    by (rule plain_values_representable) (simp add: sample_payload_def plain_string_def)
  have present: "truthy (cookie_parse plain_runtime ''theme=dark; loggedIn=true'' ''loggedIn'')"
    by (simp add: plain_runtime_def plain_cookie_simps truthy_def)
  from login_then_useUser_round_trip [where rt = plain_runtime and api = no_throw
      and postData = sample_postData and uname = "''bob''" and pw = "''hunter2''"
      and query = Map.empty and P = sample_payload and p = fresh_page
      and c = "''theme=dark; loggedIn=true''",
      OF sample_postData_simps(1) _ _ accepted recovered present]
    accepted recovered present sample_postData_simps(1)
  show ?thesis by simp
qed

text \<open>
  The claim as first stated fails in three ways, each after the same response with error
  flag false and the JSON-representable payload of the sample server. First, a cookie
  that is present with the empty string as value is falsy: the reader answers logged out.
  Second, a component that first rendered before the login keeps what it read then: with
  the cookie present, its next render returns \<open>{ user: null, loggedIn: true }\<close>. Third,
  when the browser refuses the write nothing is stored, and a first render with the cookie
  present returns \<open>{ user: null, loggedIn: true }\<close> as well.
\<close>

theorem round_trip_failures:
  "sample_postData ''/api/login'' \<lparr>username = ''bob'', password = ''hunter2''\<rparr>
     = Inr \<lparr>error = False, errorDescription = None, user = Some sample_payload\<rparr>
   \<and> JSON_representable plain_runtime sample_payload
   \<and> cookie_parse plain_runtime ''loggedIn='' ''loggedIn'' = Some []
   \<and> fst (useUser plain_runtime None
        (Some ((window (submit plain_runtime no_throw sample_postData Map.empty
           ''bob'' ''hunter2'' fresh_page))\<lparr>document_cookie := ''loggedIn=''\<rparr>)))
     = Inr \<lparr>UserState.user = JNull, loggedIn = False\<rparr>
   \<and> fst (useUser plain_runtime None
        (Some ((window (submit plain_runtime no_throw sample_postData Map.empty
           ''bob'' ''hunter2'' fresh_page))\<lparr>document_cookie := ''loggedIn=''\<rparr>)))
     \<noteq> Inr \<lparr>UserState.user = sample_payload, loggedIn = True\<rparr>
   \<and> cookie_parse plain_runtime ''theme=dark; loggedIn=true'' ''loggedIn'' = Some ''true''
   \<and> fst (useUser plain_runtime
        (snd (useUser plain_runtime None (Some (window fresh_page))))
        (Some ((window (submit plain_runtime no_throw sample_postData Map.empty
           ''bob'' ''hunter2'' fresh_page))\<lparr>document_cookie := ''theme=dark; loggedIn=true''\<rparr>)))
     = Inr \<lparr>UserState.user = JNull, loggedIn = True\<rparr>
   \<and> fst (useUser plain_runtime None
        (Some ((window (submit plain_runtime full_storage sample_postData Map.empty
           ''bob'' ''hunter2'' fresh_page))\<lparr>document_cookie := ''theme=dark; loggedIn=true''\<rparr>)))
     = Inr \<lparr>UserState.user = JNull, loggedIn = True\<rparr>
   \<and> Inr \<lparr>UserState.user = JNull, loggedIn = True\<rparr>
     \<noteq> (Inr \<lparr>UserState.user = sample_payload, loggedIn = True\<rparr> :: js_error + int UserState)"
proof -
  have "JSON_representable plain_runtime sample_payload"
    by (rule plain_values_representable) (simp add: sample_payload_def plain_string_def)
  moreover have "sample_payload \<noteq> JNull"
    by (simp add: sample_payload_def)
  ultimately show ?thesis
    by (simp add: fst_useUser snd_useUser useMemo_def read_stored_user_def submit_def
        loginHandler_def try_block_def no_throw_def full_storage_def fresh_page_def
        stringify_user_def plain_runtime_def plain_cookie_simps plain_parse_simps truthy_def
        sample_postData_simps JSON_representable_def)
qed

end
